theory Spec2Isabelle
  imports Main "HOL-Library.Word" "HOL-Library.Sublist"
begin

unbundle bit_operations_syntax

section \<open>Strings\<close>

text \<open>
  JavaScript strings are modelled as \<open>string\<close> (a list of \<open>char\<close>); every character
  stands for one code unit with a code below 256. \<open>String.prototype.includes\<close> is the
  search for a contiguous run, \<open>toLowerCase\<close> maps the letters A to Z.
\<close>

fun js_includes :: "string \<Rightarrow> string \<Rightarrow> bool" where
  "js_includes [] sub = (sub = [])"
| "js_includes (c # cs) sub = (prefix sub (c # cs) \<or> js_includes cs sub)"

definition lower_char :: "char \<Rightarrow> char" where
  "lower_char c =
     (case map_of (zip ''ABCDEFGHIJKLMNOPQRSTUVWXYZ'' ''abcdefghijklmnopqrstuvwxyz'') c of
        Some d \<Rightarrow> d
      | None \<Rightarrow> c)"

definition toLowerCase :: "string \<Rightarrow> string" where
  "toLowerCase s = map lower_char s"

section \<open>Result cache (content.js)\<close>

text \<open>
  \<open>createTextHash\<close>: the loop \<open>hash = ((hash << 5) - hash) + char; hash = hash & hash\<close>
  keeps a signed 32-bit value; \<open>toString(36)\<close> prints it with a minus sign when negative.
\<close>

fun createTextHash_loop :: "32 word \<Rightarrow> string \<Rightarrow> 32 word" where
  "createTextHash_loop hash [] = hash"
| "createTextHash_loop hash (c # cs) =
     createTextHash_loop ((push_bit 5 hash - hash) + of_nat (of_char c)) cs"

definition digit36 :: "nat \<Rightarrow> char" where
  "digit36 d = ''0123456789abcdefghijklmnopqrstuvwxyz'' ! d"

fun toString36_nat :: "nat \<Rightarrow> string" where
  "toString36_nat n =
     (if n < 36 then [digit36 n] else toString36_nat (n div 36) @ [digit36 (n mod 36)])"

definition toString36 :: "int \<Rightarrow> string" where
  "toString36 i =
     (if i < 0 then CHR ''-'' # toString36_nat (nat (- i)) else toString36_nat (nat i))"

definition createTextHash :: "string \<Rightarrow> string" where
  "createTextHash text = toString36 (sint (createTextHash_loop 0 text))"

definition createTranslationCacheKey :: "string \<Rightarrow> string \<Rightarrow> string" where
  "createTranslationCacheKey text language =
     ''translation_cache_'' @ createTextHash text @ ''_'' @ language"

record cache_entry =
  translation :: string
  timestamp :: int
  sourceText :: string
  targetLanguage :: string

type_synonym cache_store = "string \<rightharpoonup> cache_entry"

definition TWENTY_FOUR_HOURS :: int where
  "TWENTY_FOUR_HOURS = 24 * 60 * 60 * 1000"

text \<open>The first argument is the value of \<open>Date.now()\<close> at the call, in milliseconds.\<close>

definition isTranslationExpired :: "int \<Rightarrow> int \<Rightarrow> bool" where
  "isTranslationExpired now ts = (now - ts > TWENTY_FOUR_HOURS)"

definition getCachedTranslation :: "int \<Rightarrow> cache_store \<Rightarrow> string \<Rightarrow> string \<Rightarrow> string option" where
  "getCachedTranslation now store text language =
     (case store (createTranslationCacheKey text language) of
        None \<Rightarrow> None
      | Some cacheEntry \<Rightarrow>
          if \<not> isTranslationExpired now (timestamp cacheEntry)
          then Some (translation cacheEntry) else None)"

definition setCachedTranslation ::
  "int \<Rightarrow> cache_store \<Rightarrow> string \<Rightarrow> string \<Rightarrow> string \<Rightarrow> cache_store" where
  "setCachedTranslation now store text language tr =
     store(createTranslationCacheKey text language \<mapsto>
       \<lparr>translation = tr, timestamp = now, sourceText = text, targetLanguage = language\<rparr>)"

section \<open>Credential vault (background_common.js)\<close>

type_synonym byte = "8 word"

text \<open>
  The host's Web Crypto and text codec are parameters of the model: \<open>TextEncoder.encode\<close>,
  \<open>TextDecoder.decode\<close>, PBKDF2 key derivation (\<open>importKey\<close> followed by \<open>deriveKey\<close>; the
  arguments are the hash name, the iteration count, the key length, the password bytes and
  the salt) and AES-GCM with a key and an IV; decryption gives \<open>None\<close> where
  \<open>crypto.subtle.decrypt\<close> rejects.
\<close>

record 'k webcrypto =
  text_encode :: "string \<Rightarrow> byte list"
  text_decode :: "byte list \<Rightarrow> string"
  deriveKey :: "string \<Rightarrow> nat \<Rightarrow> nat \<Rightarrow> byte list \<Rightarrow> byte list \<Rightarrow> 'k"
  aes_gcm_encrypt :: "'k \<Rightarrow> byte list \<Rightarrow> byte list \<Rightarrow> byte list"
  aes_gcm_decrypt :: "'k \<Rightarrow> byte list \<Rightarrow> byte list \<Rightarrow> byte list option"

text \<open>
  The random source is the sequence of bytes that \<open>crypto.getRandomValues\<close> is going to
  deliver; a draw of \<open>n\<close> bytes takes the next \<open>n\<close> and leaves the rest.
\<close>

type_synonym rng = "nat \<Rightarrow> byte"

definition getRandomValues :: "nat \<Rightarrow> rng \<Rightarrow> byte list \<times> rng" where
  "getRandomValues n r = (map r [0..<n], \<lambda>i. r (i + n))"

definition hex_digit :: "nat \<Rightarrow> char" where
  "hex_digit d = ''0123456789abcdef'' ! d"

text \<open>\<open>b.toString(16).padStart(2, "0")\<close> for a byte \<open>b\<close>.\<close>

definition byte_to_hex :: "byte \<Rightarrow> string" where
  "byte_to_hex b = [hex_digit (unat b div 16), hex_digit (unat b mod 16)]"

definition generateInstallationPassword :: "rng \<Rightarrow> string \<times> rng" where
  "generateInstallationPassword r =
     (let (bs, r') = getRandomValues 32 r in (concat (map byte_to_hex bs), r'))"

text \<open>
  The stored blob holds plain arrays of numbers (\<open>Array.from\<close> of the typed arrays);
  \<open>new Uint8Array(array)\<close> reads every number modulo 256.
\<close>

record encrypted_data =
  salt :: "nat list"
  iv :: "nat list"
  encrypted :: "nat list"

definition Array_from :: "byte list \<Rightarrow> nat list" where
  "Array_from bs = map unat bs"

definition Uint8Array :: "nat list \<Rightarrow> byte list" where
  "Uint8Array ns = map of_nat ns"

definition encryptApiKey ::
  "'k webcrypto \<Rightarrow> string \<Rightarrow> string \<Rightarrow> rng \<Rightarrow> encrypted_data \<times> rng" where
  "encryptApiKey W apiKey password r =
     (let data = text_encode W apiKey;
          (salt_bytes, r1) = getRandomValues 16 r;
          derivedKey = deriveKey W ''SHA-256'' 100000 256 (text_encode W password) salt_bytes;
          (iv_bytes, r2) = getRandomValues 12 r1;
          ciphertext = aes_gcm_encrypt W derivedKey iv_bytes data
      in (\<lparr>salt = Array_from salt_bytes, iv = Array_from iv_bytes,
           encrypted = Array_from ciphertext\<rparr>, r2))"

text \<open>\<open>None\<close>: the promise of \<open>decryptApiKey\<close> rejects.\<close>

definition decryptApiKey :: "'k webcrypto \<Rightarrow> encrypted_data \<Rightarrow> string \<Rightarrow> string option" where
  "decryptApiKey W encryptedData password =
     (let derivedKey = deriveKey W ''SHA-256'' 100000 256 (text_encode W password)
                         (Uint8Array (salt encryptedData))
      in case aes_gcm_decrypt W derivedKey (Uint8Array (iv encryptedData))
                (Uint8Array (encrypted encryptedData)) of
           None \<Rightarrow> None
         | Some decrypted \<Rightarrow> Some (text_decode W decrypted))"

section \<open>Host environment and wire data\<close>

text \<open>
  A provider's error payload is a JSON object that may have a member \<open>error\<close> with string
  members \<open>type\<close> and \<open>message\<close>; a success payload may have \<open>choices\<close> (OpenAI) or
  \<open>candidates\<close> (Google). An absent member, and one of the wrong shape, is \<open>None\<close>; a message
  without content has the empty string as its content.
\<close>

record message =
  role :: string
  content :: string

record provider_error =
  err_type :: "string option"
  err_message :: "string option"

record openai_choice =
  choice_message :: "message option"

record google_content =
  parts :: "string list option"

record google_candidate =
  cand_content :: "google_content option"

record json_object =
  error_member :: "provider_error option"
  choices :: "openai_choice list option"
  candidates :: "google_candidate list option"

definition empty_object :: json_object where
  "empty_object = \<lparr>error_member = None, choices = None, candidates = None\<rparr>"

text \<open>The body of a response: \<open>response.json()\<close> rejects with a message, or gives an object.\<close>

datatype response_body = NotJson string | JsonBody json_object

record http_response =
  status :: nat
  statusText :: string
  json_body :: response_body

definition ok :: "http_response \<Rightarrow> bool" where
  "ok response = (200 \<le> status response \<and> status response \<le> 299)"

datatype json =
  JNull | JBool bool | JNumber int | JString string | JArray "json list"
  | JObject "(string \<times> json) list"

record schema_property =
  prop_type :: string
  description :: string

record object_schema =
  schema_type :: string
  properties :: "(string \<times> schema_property) list"
  required :: "string list"
  additionalProperties :: "bool option"

record response_format =
  format_type :: string
  schema_name :: string
  schema :: object_schema
  strict :: bool

record openai_request =
  req_model :: string
  req_messages :: "message list"
  req_response_format :: response_format
  req_userId :: "string option"

record google_turn =
  turn_role :: string
  turn_parts :: "string list"

record google_request =
  contents :: "google_turn list"
  responseMimeType :: string
  responseSchema :: object_schema

datatype request_body = OpenAIBody openai_request | GoogleBody google_request

record http_request =
  url :: string
  http_method :: string
  headers :: "(string \<times> string) list"
  body :: request_body

text \<open>\<open>fetch\<close> rejects with a \<open>TypeError\<close> carrying a message, or delivers a response.\<close>

datatype fetch_result = FetchRejects string | FetchResponds http_response

text \<open>
  The host: Web Crypto, \<open>chrome.i18n.getMessage\<close>, the network behind \<open>fetch\<close>,
  \<open>JSON.parse\<close> (\<open>Inl\<close> carries the message of the \<open>SyntaxError\<close>) and the constant
  \<open>CONFIG.DEFAULT_REMOTE_MODEL\<close> of config.js.
\<close>

record 'k host =
  crypto :: "'k webcrypto"
  getMessage :: "string \<Rightarrow> string list \<Rightarrow> string"
  fetch :: "http_request \<Rightarrow> fetch_result"
  JSON_parse :: "string \<Rightarrow> string + json"
  DEFAULT_REMOTE_MODEL :: string

definition GOOGLE_API_BASE_URL :: string where
  "GOOGLE_API_BASE_URL = ''https://generativelanguage.googleapis.com/v1beta''"

definition DEFAULT_GOOGLE_MODEL :: string where
  "DEFAULT_GOOGLE_MODEL = ''models/gemini-2.5-flash-preview-05-20''"

definition OPENAI :: string where
  "OPENAI = ''openai''"

definition GOOGLE :: string where
  "GOOGLE = ''google''"

definition CONVERSATION_TYPES :: "string list" where
  "CONVERSATION_TYPES =
     [''flashcard'', ''definition'', ''mnemonic'', ''translation'', ''examples'',
      ''translation_popup'']"

text \<open>\<open>a || b\<close> on a string that may be absent: the empty string is falsy too.\<close>

definition or_else :: "string option \<Rightarrow> string \<Rightarrow> string" where
  "or_else a b = (case a of None \<Rightarrow> b | Some x \<Rightarrow> if x = [] then b else x)"

fun toString10 :: "nat \<Rightarrow> string" where
  "toString10 n =
     (if n < 10 then [digit36 n] else toString10 (n div 10) @ [digit36 (n mod 10)])"

section \<open>Conversation store (background_common.js)\<close>

record conversation =
  messages :: "message list"

type_synonym conv_store = "string \<rightharpoonup> conversation"

definition getSystemPrompt :: "'k host \<Rightarrow> string \<Rightarrow> string \<Rightarrow> string" where
  "getSystemPrompt E type learningGoal =
     (if type = ''flashcard'' then getMessage E ''generateFlashcardInstructions'' [learningGoal]
      else if type = ''definition'' then getMessage E ''helpfulAssistantDefinition'' []
      else if type = ''mnemonic'' then getMessage E ''creativeAssistantMnemonic'' []
      else if type = ''translation'' then getMessage E ''translationAssistant'' []
      else if type = ''examples'' then getMessage E ''examplesAssistant'' [learningGoal]
      else if type = ''translation_popup'' then getMessage E ''translationAssistant'' []
      else getMessage E ''generateFlashcardInstructions'' [learningGoal])"

definition conversation_key :: "string \<Rightarrow> string \<Rightarrow> string" where
  "conversation_key userId type = ''conversation_'' @ userId @ ''_'' @ type"

text \<open>\<open>array[0] = v\<close>: an empty array grows to one element.\<close>

definition assign_first :: "'a list \<Rightarrow> 'a \<Rightarrow> 'a list" where
  "assign_first xs v = (case xs of [] \<Rightarrow> [v] | _ # rest \<Rightarrow> v # rest)"

definition getOrCreateConversation ::
  "'k host \<Rightarrow> conv_store \<Rightarrow> string \<Rightarrow> string \<Rightarrow> string \<Rightarrow> conversation \<times> conv_store" where
  "getOrCreateConversation E store userId type learningGoal =
     (let key = conversation_key userId type;
          systemPrompt = getSystemPrompt E type learningGoal
      in case store key of
           Some stored \<Rightarrow>
             (stored\<lparr>messages :=
                 assign_first (messages stored) \<lparr>role = ''system'', content = systemPrompt\<rparr>\<rparr>,
              store)
         | None \<Rightarrow>
             (let newConversation =
                    \<lparr>messages = [\<lparr>role = ''system'', content = systemPrompt\<rparr>]\<rparr>
              in (newConversation, store(key \<mapsto> newConversation))))"

text \<open>\<open>array.slice(-2)\<close>: the last two elements, or the whole array when it is shorter.\<close>

definition slice_last2 :: "'a list \<Rightarrow> 'a list" where
  "slice_last2 xs = drop (length xs - 2) xs"

section \<open>Error classification (background_common.js)\<close>

definition line_terminator :: "char \<Rightarrow> bool" where
  "line_terminator c = (c = CHR 0x0A \<or> c = CHR 0x0D)"

text \<open>
  The indicators with \<open>.*\<close> are compiled by \<open>new RegExp(indicator, 'i')\<close>. They are literal
  pieces joined by \<open>.*\<close>: \<open>split_dotstar\<close> gives the pieces, \<open>regex_search\<close> looks for a
  place where the first piece stands and \<open>dotstar_then\<close> for the following pieces after it,
  in order, with no line terminator skipped in between, letters compared without case.
\<close>

fun split_dotstar :: "string \<Rightarrow> string list" where
  "split_dotstar [] = [[]]"
| "split_dotstar [c] = [[c]]"
| "split_dotstar (c # d # cs) =
     (if c = CHR ''.'' \<and> d = CHR ''*'' then [] # split_dotstar cs
      else (case split_dotstar (d # cs) of
              [] \<Rightarrow> [[c]]
            | piece # pieces \<Rightarrow> (c # piece) # pieces))"

definition prefix_i :: "string \<Rightarrow> string \<Rightarrow> bool" where
  "prefix_i piece s = prefix (toLowerCase piece) (toLowerCase s)"

fun dotstar_then :: "string list \<Rightarrow> string \<Rightarrow> bool" where
  "dotstar_then [] s = True"
| "dotstar_then (piece # pieces) [] = (piece = [] \<and> dotstar_then pieces [])"
| "dotstar_then (piece # pieces) (c # cs) =
     ((prefix_i piece (c # cs) \<and> dotstar_then pieces (drop (length piece) (c # cs)))
      \<or> (\<not> line_terminator c \<and> dotstar_then (piece # pieces) cs))"

fun regex_search :: "string list \<Rightarrow> string \<Rightarrow> bool" where
  "regex_search [] s = True"
| "regex_search (piece # pieces) [] = (piece = [] \<and> dotstar_then pieces [])"
| "regex_search (piece # pieces) (c # cs) =
     ((prefix_i piece (c # cs) \<and> dotstar_then pieces (drop (length piece) (c # cs)))
      \<or> regex_search (piece # pieces) cs)"

definition regex_test :: "string \<Rightarrow> string \<Rightarrow> bool" where
  "regex_test pattern s = regex_search (split_dotstar pattern) s"

definition modelErrorIndicators :: "string list" where
  "modelErrorIndicators =
     [''does not exist'', ''invalid model'', ''not found'', ''is not supported'',
      ''unknown model'',
      ''response_format.*json_schema.*is not supported with this model'',
      ''json_schema.*is not supported'',
      ''structured outputs.*not supported'']"

definition googleModelErrorIndicators :: "string list" where
  "googleModelErrorIndicators =
     [''not found'', ''invalid model'', ''does not exist'', ''unknown model'',
      ''is not supported'']"

definition isUnsupportedModelError :: "json_object \<Rightarrow> nat \<Rightarrow> bool" where
  "isUnsupportedModelError errorData st =
     (case error_member errorData of
        None \<Rightarrow> False
      | Some err \<Rightarrow>
          (let errorMessage = or_else (err_message err) []
           in if err_type err = Some ''invalid_request_error''
              then list_ex (\<lambda>indicator.
                      if js_includes indicator ''.*''
                      then regex_test indicator errorMessage
                      else js_includes (toLowerCase errorMessage) indicator)
                    modelErrorIndicators
              else list_ex (\<lambda>indicator. js_includes (toLowerCase errorMessage) indicator)
                     googleModelErrorIndicators))"

text \<open>The first argument is \<open>error.message\<close>.\<close>

definition isNetworkError :: "string \<Rightarrow> nat \<Rightarrow> bool" where
  "isNetworkError error_message st =
     (if js_includes error_message ''Failed to fetch''
         \<or> js_includes error_message ''Network request failed''
         \<or> js_includes error_message ''fetch'' \<and> js_includes error_message ''timeout''
      then True
      else if 500 \<le> st \<and> st < 600 then True
      else False)"

section \<open>Gateway: \<open>callAIProviderAPI\<close> (background_common.js)\<close>

text \<open>
  The values that \<open>callAIProviderAPI\<close> reads from \<open>chrome.storage.sync\<close>. A flag is the
  truthiness of the stored value; an absent or \<open>null\<close> value is \<open>None\<close>.
\<close>

record settings =
  isOwnCredits :: bool
  selectedProvider :: "string option"
  encryptedApiKey :: "encrypted_data option"
  encryptedGoogleApiKey :: "encrypted_data option"
  installationPassword :: "string option"
  apiKeyValidated :: bool
  googleApiKeyValidated :: bool
  learningGoal :: "string option"
  model :: "string option"
  googleModel :: "string option"

definition truthy :: "string option \<Rightarrow> bool" where
  "truthy s = (case s of None \<Rightarrow> False | Some x \<Rightarrow> x \<noteq> [])"

text \<open>
  An \<open>Error\<close> object with the fields that the gateway reads and writes. \<open>new Error(m)\<close> has
  the message alone.
\<close>

record js_error =
  message :: string
  error_status :: "nat option"
  errorData :: "json_object option"
  isUnsupportedModel :: "bool option"
  provider :: "string option"

definition new_Error :: "string \<Rightarrow> js_error" where
  "new_Error m =
     \<lparr>message = m, error_status = None, errorData = None, isUnsupportedModel = None,
      provider = None\<rparr>"

text \<open>
  The error thrown on a response that is not ok (both branches; the prefix of the message
  differs): \<open>response.json().catch(() => ({}))\<close> gives the payload.
\<close>

definition payload_message :: "json_object \<Rightarrow> string option" where
  "payload_message payload =
     (case error_member payload of None \<Rightarrow> None | Some err \<Rightarrow> err_message err)"

text \<open>\<open>response.json().catch(() => ({}))\<close> and \<open>errorData.error?.message || response.statusText\<close>.\<close>

definition error_payload :: "http_response \<Rightarrow> json_object" where
  "error_payload response =
     (case json_body response of NotJson _ \<Rightarrow> empty_object | JsonBody d \<Rightarrow> d)"

definition error_text :: "http_response \<Rightarrow> string" where
  "error_text response =
     or_else (payload_message (error_payload response)) (statusText response)"

definition http_error :: "string \<Rightarrow> http_response \<Rightarrow> js_error" where
  "http_error intro response =
     (let payload = error_payload response;
          unsupported = isUnsupportedModelError payload (status response);
          isNetworkErr = isNetworkError (error_text response) (status response)
      in \<lparr>message = intro @ toString10 (status response) @ '', message: ''
                      @ error_text response,
          error_status = Some (status response),
          errorData = Some payload,
          isUnsupportedModel = Some (unsupported \<and> \<not> isNetworkErr),
          provider = None\<rparr>)"

definition enhancedError :: "string \<Rightarrow> js_error \<Rightarrow> js_error" where
  "enhancedError prov e =
     \<lparr>message = message e, error_status = error_status e, errorData = errorData e,
      isUnsupportedModel = isUnsupportedModel e, provider = Some prov\<rparr>"

subsection \<open>The schema of the reply\<close>

definition string_property :: "string \<Rightarrow> string \<Rightarrow> string \<Rightarrow> string \<times> schema_property" where
  "string_property tname key descr = (key, \<lparr>prop_type = tname, description = descr\<rparr>)"

text \<open>
  The object schema of a conversation type. The two branches write it out with the type
  names \<open>object\<close>/\<open>string\<close> and \<open>additionalProperties: false\<close> (OpenAI) or
  \<open>OBJECT\<close>/\<open>STRING\<close> and no such member (Google); the keys and descriptions agree.
\<close>

definition reply_schema ::
  "string \<Rightarrow> string \<Rightarrow> bool option \<Rightarrow> string \<Rightarrow> string \<Rightarrow> string \<Rightarrow> string \<Rightarrow> object_schema" where
  "reply_schema oname sname addl type userMessage language goal =
     (if type = ''flashcard'' then
        (let includeMnemonic = js_includes userMessage ''mnemonic''
         in \<lparr>schema_type = oname,
             properties =
               [string_property sname ''definition''
                  (''A clear and concise definition of the term or concept in '' @ language),
                string_property sname ''translation''
                  (''A direct translation of the term, in '' @ language @ ''.''),
                string_property sname ''example_1''
                  (''First example sentence using the term or expression in the same language as the given term. Consider the learning goal: '' @ goal),
                string_property sname ''example_2''
                  (''Second example sentence using the term or expression in the same language as the given term. Consider the learning goal: '' @ goal),
                string_property sname ''example_3''
                  (''Third example sentence using the term or expression in the same language as the given term. Consider the learning goal: '' @ goal)]
               @ (if includeMnemonic
                  then [string_property sname ''mnemonic''
                          (''A memory aid to help remember the definition in '' @ language)]
                  else []),
             required =
               [''definition'', ''translation'', ''example_1'', ''example_2'', ''example_3'']
               @ (if includeMnemonic then [''mnemonic''] else []),
             additionalProperties = addl\<rparr>)
      else if type = ''examples'' then
        \<lparr>schema_type = oname,
         properties =
           [string_property sname ''example_1''
              (''First example sentence using the term in the same language as the given term. Consider the learning goal: '' @ goal),
            string_property sname ''example_2''
              (''Second example sentence using the term in the same language as the given term. Consider the learning goal: '' @ goal),
            string_property sname ''example_3''
              (''Third example sentence using the term in the same language as the given term. Consider the learning goal: '' @ goal)],
         required = [''example_1'', ''example_2'', ''example_3''],
         additionalProperties = addl\<rparr>
      else if type = ''translation_popup'' then
        \<lparr>schema_type = oname,
         properties =
           [string_property sname ''translation''
              (''A direct translation of the term, in '' @ language @ ''.'')],
         required = [''translation''],
         additionalProperties = addl\<rparr>
      else
        \<lparr>schema_type = oname,
         properties =
           [string_property sname type
              (''The '' @ type @ '' for the term or expression in '' @ language)],
         required = [type],
         additionalProperties = addl\<rparr>)"

definition openai_schema_name :: "string \<Rightarrow> string" where
  "openai_schema_name type =
     (if type = ''flashcard'' then ''flashcard_response''
      else if type = ''examples'' then ''examples_response''
      else if type = ''translation_popup'' then ''translation_response''
      else ''component_response'')"

definition responseFormat :: "string \<Rightarrow> string \<Rightarrow> string \<Rightarrow> string \<Rightarrow> response_format" where
  "responseFormat type userMessage language goal =
     \<lparr>format_type = ''json_schema'',
      schema_name = openai_schema_name type,
      schema = reply_schema ''object'' ''string'' (Some False) type userMessage language goal,
      strict = True\<rparr>"

definition googleResponseSchema :: "string \<Rightarrow> string \<Rightarrow> string \<Rightarrow> string \<Rightarrow> object_schema" where
  "googleResponseSchema type userMessage language goal =
     reply_schema ''OBJECT'' ''STRING'' None type userMessage language goal"

subsection \<open>The two branches\<close>

text \<open>
  What the body of the \<open>try\<close> block does: it resolves the promise with a value, throws, or
  ends without settling the promise.
\<close>

datatype completion = Returned json | Threw js_error | NoSettle

record attempt =
  completed :: completion
  stored :: conv_store
  sent :: "http_request list"

definition system_message :: "string \<Rightarrow> message" where
  "system_message text = \<lparr>role = ''system'', content = text\<rparr>"

text \<open>
  Lines 672 to 677: the system prompt goes to the front, or replaces the content of the
  first message; then the user's message is pushed.
\<close>

definition openai_messages :: "message list \<Rightarrow> string \<Rightarrow> string \<Rightarrow> message list" where
  "openai_messages msgs systemPromptText userMessage =
     (case msgs of
        [] \<Rightarrow> [system_message systemPromptText]
      | first # rest \<Rightarrow>
          if role first \<noteq> ''system'' then system_message systemPromptText # first # rest
          else first\<lparr>content := systemPromptText\<rparr> # rest)
     @ [\<lparr>role = ''user'', content = userMessage\<rparr>]"

definition openai_http_request ::
  "'k host \<Rightarrow> settings \<Rightarrow> string \<Rightarrow> string \<Rightarrow> string \<Rightarrow> string \<Rightarrow> string \<Rightarrow> string option
     \<Rightarrow> message list \<Rightarrow> http_request" where
  "openai_http_request E result userId type userMessage language goal apiKeyToUse msgs =
     \<lparr>url = (if isOwnCredits result then ''https://api.openai.com/v1/chat/completions''
             else ''https://anki-lingo-flash.piriouvictor.workers.dev/api/chat''),
      http_method = ''POST'',
      headers = (''Content-Type'', ''application/json'')
                # (if isOwnCredits result
                   then [(''Authorization'',
                          ''Bearer '' @ (case apiKeyToUse of None \<Rightarrow> ''null'' | Some k \<Rightarrow> k))]
                   else []),
      body = OpenAIBody
        \<lparr>req_model = (if isOwnCredits result
                       then or_else (model result) (DEFAULT_REMOTE_MODEL E)
                       else DEFAULT_REMOTE_MODEL E),
         req_messages = msgs,
         req_response_format = responseFormat type userMessage language goal,
         req_userId = (if \<not> isOwnCredits result then Some userId else None)\<rparr>\<rparr>"

text \<open>
  Lines 803 to 805 and 929 to 933: the first message and the last two. The list is never
  empty where the window is taken (a message has just been pushed).
\<close>

definition window :: "message list \<Rightarrow> message list" where
  "window msgs = (case msgs of [] \<Rightarrow> [] | first # _ \<Rightarrow> first # slice_last2 msgs)"

definition openai_branch ::
  "'k host \<Rightarrow> settings \<Rightarrow> conv_store \<Rightarrow> string \<Rightarrow> string \<Rightarrow> string \<Rightarrow> string \<Rightarrow> string
     \<Rightarrow> string option \<Rightarrow> conversation \<Rightarrow> string \<Rightarrow> attempt" where
  "openai_branch E result store userId type userMessage language goal apiKeyToUse conv
       systemPromptText =
     (let msgs = openai_messages (messages conv) systemPromptText userMessage;
          request = openai_http_request E result userId type userMessage language goal
                      apiKeyToUse msgs;
          failed = (\<lambda>e. \<lparr>completed = Threw e, stored = store, sent = [request]\<rparr>)
      in case fetch E request of
           FetchRejects m \<Rightarrow> failed (new_Error m)
         | FetchResponds response \<Rightarrow>
             if \<not> ok response then failed (http_error ''HTTP error! status: '' response)
             else (case json_body response of
                NotJson m \<Rightarrow> failed (new_Error m)
              | JsonBody data \<Rightarrow>
                 (case choices data of
                    None \<Rightarrow>
                      failed (new_Error ''Invalid API response: missing or empty choices array'')
                  | Some [] \<Rightarrow>
                      failed (new_Error ''Invalid API response: missing or empty choices array'')
                  | Some (choice # _) \<Rightarrow>
                     (case choice_message choice of
                        None \<Rightarrow>
                          failed (new_Error ''Invalid API response: missing message content'')
                      | Some assistantMessage \<Rightarrow>
                          if content assistantMessage = []
                          then failed (new_Error ''Invalid API response: missing message content'')
                          else
                            (let kept = window (msgs @ [assistantMessage]);
                                 store' = store(conversation_key userId type \<mapsto>
                                            conv\<lparr>messages := kept\<rparr>)
                             in case JSON_parse E (content assistantMessage) of
                                  Inl m \<Rightarrow>
                                    \<lparr>completed = Threw (new_Error m), stored = store',
                                     sent = [request]\<rparr>
                                | Inr v \<Rightarrow>
                                    \<lparr>completed = Returned v, stored = store',
                                     sent = [request]\<rparr>)))))"

definition google_http_request ::
  "settings \<Rightarrow> string \<Rightarrow> string \<Rightarrow> string \<Rightarrow> string \<Rightarrow> string option \<Rightarrow> string
     \<Rightarrow> http_request" where
  "google_http_request result type userMessage language goal apiKeyToUse systemPromptText =
     \<lparr>url = GOOGLE_API_BASE_URL @ ''/'' @ or_else (googleModel result) DEFAULT_GOOGLE_MODEL
             @ '':generateContent?key='' @ (case apiKeyToUse of None \<Rightarrow> ''null'' | Some k \<Rightarrow> k),
      http_method = ''POST'',
      headers = [(''Content-Type'', ''application/json'')],
      body = GoogleBody
        \<lparr>contents = [\<lparr>turn_role = ''user'',
                       turn_parts = [systemPromptText @ [CHR 0x0A, CHR 0x0A] @ ''User query: ''
                                     @ userMessage]\<rparr>],
         responseMimeType = ''application/json'',
         responseSchema = googleResponseSchema type userMessage language goal\<rparr>\<rparr>"

text \<open>
  Lines 910 to 916: the text of the first part of the first candidate, when every step of
  the path is there and the text is not empty.
\<close>

definition google_reply_text :: "json_object \<Rightarrow> string option" where
  "google_reply_text data =
     (case candidates data of
        None \<Rightarrow> None
      | Some [] \<Rightarrow> None
      | Some (candidate # _) \<Rightarrow>
         (case cand_content candidate of
            None \<Rightarrow> None
          | Some c \<Rightarrow>
             (case parts c of
                None \<Rightarrow> None
              | Some [] \<Rightarrow> None
              | Some (text # _) \<Rightarrow> if text = [] then None else Some text)))"

definition google_window :: "message list \<Rightarrow> message list" where
  "google_window msgs =
     (case msgs of
        [] \<Rightarrow> slice_last2 msgs
      | first # _ \<Rightarrow>
          if role first = ''system'' then first # slice_last2 msgs else slice_last2 msgs)"

definition google_branch ::
  "'k host \<Rightarrow> settings \<Rightarrow> conv_store \<Rightarrow> string \<Rightarrow> string \<Rightarrow> string \<Rightarrow> string \<Rightarrow> string
     \<Rightarrow> string option \<Rightarrow> conversation \<Rightarrow> string \<Rightarrow> attempt" where
  "google_branch E result store userId type userMessage language goal apiKeyToUse conv
       systemPromptText =
     (let request = google_http_request result type userMessage language goal apiKeyToUse
                      systemPromptText;
          failed = (\<lambda>e. \<lparr>completed = Threw e, stored = store, sent = [request]\<rparr>)
      in case fetch E request of
           FetchRejects m \<Rightarrow> failed (new_Error m)
         | FetchResponds response \<Rightarrow>
             if \<not> ok response
             then failed (http_error ''Google API HTTP error! status: '' response)
             else (case json_body response of
                NotJson m \<Rightarrow> failed (new_Error m)
              | JsonBody data \<Rightarrow>
                 (case google_reply_text data of
                    None \<Rightarrow>
                      failed (new_Error
                        ''Invalid Google API response: missing or malformed content'')
                  | Some assistantResponseText \<Rightarrow>
                      (let pushed = messages conv
                                    @ [\<lparr>role = ''user'', content = userMessage\<rparr>,
                                       \<lparr>role = ''assistant'', content = assistantResponseText\<rparr>];
                           kept = google_window pushed;
                           store' = store(conversation_key userId type \<mapsto>
                                      conv\<lparr>messages := kept\<rparr>)
                       in case JSON_parse E assistantResponseText of
                            Inl m \<Rightarrow>
                              \<lparr>completed = Threw (new_Error m), stored = store',
                               sent = [request]\<rparr>
                          | Inr v \<Rightarrow>
                              \<lparr>completed = Returned v, stored = store',
                               sent = [request]\<rparr>))))"

subsection \<open>The call\<close>

text \<open>
  Lines 635 to 650: the key passed by the caller, or else (with own credits) the stored
  blob of the selected provider, decrypted with the stored password. \<open>Inl\<close> carries the
  message of the rejection.
\<close>

definition resolve_credential ::
  "'k host \<Rightarrow> settings \<Rightarrow> string \<Rightarrow> string option \<Rightarrow> string + string option" where
  "resolve_credential E result prov apiKey =
     (if isOwnCredits result \<and> \<not> truthy apiKey then
        (let missing = Inl (getMessage E (if prov = GOOGLE
                                           then ''googleApiKeyMissingOrNotEncrypted''
                                           else ''apiKeyMissingOrNotEncrypted'') [])
         in case (if prov = GOOGLE then encryptedGoogleApiKey result
                  else encryptedApiKey result) of
              None \<Rightarrow> missing
            | Some blob \<Rightarrow>
               (case installationPassword result of
                  None \<Rightarrow> missing
                | Some password \<Rightarrow>
                    if password = [] then missing
                    else (case decryptApiKey (crypto E) blob password of
                            None \<Rightarrow> Inl (getMessage E ''failedToDecryptApiKey'' [])
                          | Some key \<Rightarrow> Inr (Some key))))
      else Inr apiKey)"

definition selected_provider :: "settings \<Rightarrow> string" where
  "selected_provider result = or_else (selectedProvider result) OPENAI"

definition learning_goal :: "settings \<Rightarrow> string" where
  "learning_goal result = or_else (learningGoal result) ''General language learning''"

text \<open>
  Lines 624 to 660, the checks before the \<open>try\<close> block, in the order of the source:
  \<open>Inl\<close> carries the message of the error that the promise is rejected with, \<open>Inr\<close> the
  key to use.
\<close>

definition admit :: "'k host \<Rightarrow> settings \<Rightarrow> string \<Rightarrow> string option \<Rightarrow> string + string option" where
  "admit E result type apiKey =
     (let prov = selected_provider result
      in if isOwnCredits result \<and> prov = OPENAI \<and> \<not> apiKeyValidated result
         then Inl (getMessage E ''enterValidApiKey'' [])
         else if isOwnCredits result \<and> prov = GOOGLE \<and> \<not> googleApiKeyValidated result
         then Inl (getMessage E ''enterValidGoogleApiKey'' [])
         else (case resolve_credential E result prov apiKey of
            Inl m \<Rightarrow> Inl m
          | Inr apiKeyToUse \<Rightarrow>
              if \<not> truthy apiKeyToUse \<and> isOwnCredits result
              then Inl (getMessage E (if prov = GOOGLE then ''googleApiKeyMissing''
                                      else ''apiKeyMissing'') [])
              else if type \<notin> set CONVERSATION_TYPES
              then Inl (''Invalid conversation type: '' @ type)
              else Inr apiKeyToUse))"

text \<open>Lines 662 to 937, the body of the \<open>try\<close> block.\<close>

definition try_block ::
  "'k host \<Rightarrow> settings \<Rightarrow> conv_store \<Rightarrow> string \<Rightarrow> string \<Rightarrow> string \<Rightarrow> string \<Rightarrow> string option
     \<Rightarrow> attempt" where
  "try_block E result store userId type userMessage language apiKeyToUse =
     (let prov = selected_provider result;
          goal = learning_goal result;
          (conv, store1) = getOrCreateConversation E store userId type goal;
          systemPromptText = getSystemPrompt E type goal
      in if prov = OPENAI
         then openai_branch E result store1 userId type userMessage language goal
                apiKeyToUse conv systemPromptText
         else if prov = GOOGLE
         then google_branch E result store1 userId type userMessage language goal
                apiKeyToUse conv systemPromptText
         else \<lparr>completed = NoSettle, stored = store1, sent = []\<rparr>)"

text \<open>
  The promise returned by \<open>callAIProviderAPI\<close>, the conversation store after the call and
  the requests handed to \<open>fetch\<close>, in order. An error caught by the \<open>catch\<close> of lines
  939 to 952 rejects the promise with the enhanced error. Reads and writes of
  \<open>chrome.storage.sync\<close> succeed.
\<close>

datatype promise = Resolved json | Rejected js_error | Pending

record call_result =
  outcome :: promise
  store_after :: conv_store
  requests :: "http_request list"

definition settle :: "string \<Rightarrow> completion \<Rightarrow> promise" where
  "settle prov c =
     (case c of
        Returned v \<Rightarrow> Resolved v
      | Threw e \<Rightarrow> Rejected (enhancedError prov e)
      | NoSettle \<Rightarrow> Pending)"

definition callAIProviderAPI ::
  "'k host \<Rightarrow> settings \<Rightarrow> conv_store \<Rightarrow> string \<Rightarrow> string \<Rightarrow> string \<Rightarrow> string \<Rightarrow> string option
     \<Rightarrow> call_result" where
  "callAIProviderAPI E result store userId type userMessage language apiKey =
     (case admit E result type apiKey of
        Inl m \<Rightarrow> \<lparr>outcome = Rejected (new_Error m), store_after = store, requests = []\<rparr>
      | Inr apiKeyToUse \<Rightarrow>
          (let tried = try_block E result store userId type userMessage language apiKeyToUse
           in \<lparr>outcome = settle (selected_provider result) (completed tried),
               store_after = stored tried,
               requests = sent tried\<rparr>))"

subsection \<open>The message listener, action \<open>callChatGPTAPI\<close>\<close>

text \<open>The value handed to \<open>sendResponse\<close>; a member that is \<open>undefined\<close> is \<open>None\<close>.\<close>

record response =
  success :: bool
  data :: "json option"
  error :: "string option"
  resp_status :: "nat option"
  resp_errorData :: "json_object option"
  resp_provider :: "string option"
  resp_isUnsupportedModel :: "bool option"

definition success_response :: "json \<Rightarrow> response" where
  "success_response v =
     \<lparr>success = True, data = Some v, error = None, resp_status = None,
      resp_errorData = None, resp_provider = None, resp_isUnsupportedModel = None\<rparr>"

definition failure_response :: "js_error \<Rightarrow> response" where
  "failure_response e =
     \<lparr>success = False, data = None, error = Some (message e),
      resp_status = error_status e, resp_errorData = errorData e,
      resp_provider = provider e,
      resp_isUnsupportedModel =
        (if isUnsupportedModel e = Some True then Some True else None)\<rparr>"

text \<open>\<open>None\<close>: \<open>sendResponse\<close> is never called.\<close>

definition on_callChatGPTAPI ::
  "'k host \<Rightarrow> settings \<Rightarrow> conv_store \<Rightarrow> string \<Rightarrow> string \<Rightarrow> string \<Rightarrow> string \<Rightarrow> string option
     \<Rightarrow> response option" where
  "on_callChatGPTAPI E result store userId type userMessage language apiKey =
     (case outcome (callAIProviderAPI E result store userId type userMessage language apiKey) of
        Resolved v \<Rightarrow> Some (success_response v)
      | Rejected e \<Rightarrow> Some (failure_response e)
      | Pending \<Rightarrow> None)"

section \<open>Messages for failures (content.js)\<close>

text \<open>
  \<open>getApiErrorMessage\<close> returns \<open>chrome.i18n.getMessage(key)\<close>; \<open>getApiErrorMessageKey\<close> is
  the key it chooses. The arguments are \<open>error.status\<close>, \<open>error.message\<close>,
  \<open>error.errorData\<close> and the provider.
\<close>

definition getApiErrorMessageKey ::
  "nat option \<Rightarrow> string option \<Rightarrow> json_object option \<Rightarrow> string \<Rightarrow> string" where
  "getApiErrorMessageKey st msg payload prov =
     (let errorMessage =
            toLowerCase (or_else (case payload of None \<Rightarrow> None | Some d \<Rightarrow> payload_message d)
                           (or_else msg []));
          m = or_else msg []
      in if truthy msg \<and> (js_includes m ''Failed to fetch''
                            \<or> js_includes m ''Network request failed''
                            \<or> js_includes m ''network''
                            \<or> js_includes m ''connection'')
         then ''networkError''
         else if truthy msg \<and> js_includes m ''JSON'' then ''jsonParseError''
         else if st = Some 400 then
           (if prov = ''google'' \<and> js_includes errorMessage ''free tier is not available''
            then ''apiError400FailedPrecondition'' else ''apiError400InvalidRequest'')
         else if st = Some 401 then
           (if js_includes errorMessage ''incorrect'' \<or> js_includes errorMessage ''invalid''
            then ''apiError401IncorrectKey''
            else if js_includes errorMessage ''organization'' then ''apiError401NotMember''
            else ''apiError401InvalidAuth'')
         else if st = Some 403 then
           (if js_includes errorMessage ''country'' \<or> js_includes errorMessage ''region''
               \<or> js_includes errorMessage ''territory''
               \<or> js_includes errorMessage ''not supported''
            then ''apiError403CountryNotSupported'' else ''apiError403PermissionDenied'')
         else if st = Some 404 then ''apiError404NotFound''
         else if st = Some 429 then
           (if js_includes errorMessage ''quota'' \<or> js_includes errorMessage ''credits''
               \<or> js_includes errorMessage ''billing'' \<or> js_includes errorMessage ''exceeded''
            then ''apiError429QuotaExceeded''
            else if js_includes errorMessage ''slow down'' then ''apiError503SlowDown''
            else ''apiError429RateLimit'')
         else if st = Some 500 then ''apiError500ServerError''
         else if st = Some 503 then
           (if js_includes errorMessage ''overloaded'' \<or> js_includes errorMessage ''capacity''
            then ''apiError503ServiceUnavailable''
            else if js_includes errorMessage ''slow down'' then ''apiError503SlowDown''
            else ''apiError503ServiceUnavailable'')
         else if st = Some 504 then ''apiError504Timeout''
         else ''apiErrorGeneric'')"

definition getApiErrorMessage ::
  "'k host \<Rightarrow> nat option \<Rightarrow> string option \<Rightarrow> json_object option \<Rightarrow> string \<Rightarrow> string" where
  "getApiErrorMessage E st msg payload prov =
     getMessage E (getApiErrorMessageKey st msg payload prov) []"


section \<open>Storing a validated key (popup part of background_common.js)\<close>

text \<open>
  The object passed to one call of \<open>chrome.storage.sync.set\<close>: \<open>None\<close> for a key that the
  object does not have, \<open>Some None\<close> for a key set to \<open>null\<close>.
\<close>

record storage_update =
  set_isOwnCredits :: "bool option"
  set_installationPassword :: "string option"
  set_encryptedApiKey :: "encrypted_data option option"
  set_encryptedGoogleApiKey :: "encrypted_data option option"
  set_apiKeyValidated :: "bool option"
  set_googleApiKeyValidated :: "bool option"
  set_model :: "string option option"
  set_googleModel :: "string option option"

definition no_update :: storage_update where
  "no_update =
     \<lparr>set_isOwnCredits = None, set_installationPassword = None, set_encryptedApiKey = None,
      set_encryptedGoogleApiKey = None, set_apiKeyValidated = None,
      set_googleApiKeyValidated = None, set_model = None, set_googleModel = None\<rparr>"

definition storage_set :: "storage_update \<Rightarrow> settings \<Rightarrow> settings" where
  "storage_set u s =
     s\<lparr>isOwnCredits := (case set_isOwnCredits u of None \<Rightarrow> isOwnCredits s | Some b \<Rightarrow> b),
       installationPassword :=
         (case set_installationPassword u of None \<Rightarrow> installationPassword s | Some p \<Rightarrow> Some p),
       encryptedApiKey :=
         (case set_encryptedApiKey u of None \<Rightarrow> encryptedApiKey s | Some v \<Rightarrow> v),
       encryptedGoogleApiKey :=
         (case set_encryptedGoogleApiKey u of None \<Rightarrow> encryptedGoogleApiKey s | Some v \<Rightarrow> v),
       apiKeyValidated :=
         (case set_apiKeyValidated u of None \<Rightarrow> apiKeyValidated s | Some b \<Rightarrow> b),
       googleApiKeyValidated :=
         (case set_googleApiKeyValidated u of None \<Rightarrow> googleApiKeyValidated s | Some b \<Rightarrow> b),
       model := (case set_model u of None \<Rightarrow> model s | Some v \<Rightarrow> v),
       googleModel := (case set_googleModel u of None \<Rightarrow> googleModel s | Some v \<Rightarrow> v)\<rparr>"

definition js_whitespace :: "char \<Rightarrow> bool" where
  "js_whitespace c =
     (c \<in> set [CHR 0x09, CHR 0x0A, CHR 0x0B, CHR 0x0C, CHR 0x0D, CHR 0x20, CHR 0xA0])"

definition trim :: "string \<Rightarrow> string" where
  "trim s = rev (dropWhile js_whitespace (rev (dropWhile js_whitespace s)))"

text \<open>
  The answer of the background page to the validation request: \<open>chrome.runtime.lastError\<close>
  is set, or a response arrives whose \<open>valid\<close> is truthy or not.
\<close>

datatype validation_reply = LastError | Reply bool

text \<open>
  What \<open>handleValidateApiKey\<close> does to the store: the objects it passes to
  \<open>chrome.storage.sync.set\<close>, in order, the key of the error it shows, and the random source
  left over. Key generation and encryption do not throw here (the \<open>catch\<close> of lines 1732
  to 1735 is for a host that refuses them), and the store accepts what is written.
\<close>

record validation_result =
  writes :: "storage_update list"
  shown_error :: "string option"
  rng_after :: rng

definition handleValidateApiKey ::
  "'k webcrypto \<Rightarrow> string \<Rightarrow> string \<Rightarrow> validation_reply \<Rightarrow> rng \<Rightarrow> validation_result" where
  "handleValidateApiKey W input_value selected reply r =
     (let apiKey = trim input_value
      in if apiKey = []
         then \<lparr>writes = [],
               shown_error = Some (if selected = GOOGLE then ''enterGoogleApiKey''
                                   else ''enterOpenAIKey''),
               rng_after = r\<rparr>
         else (case reply of
            LastError \<Rightarrow> \<lparr>writes = [], shown_error = Some ''genericError'', rng_after = r\<rparr>
          | Reply valid \<Rightarrow>
              if valid then
                (let (password, r1) = generateInstallationPassword r;
                     (blob, r2) = encryptApiKey W apiKey password r1;
                     storageUpdate =
                       no_update\<lparr>set_isOwnCredits := Some True,
                                 set_installationPassword := Some password\<rparr>;
                     storageUpdate' =
                       (if selected = GOOGLE
                        then storageUpdate\<lparr>set_encryptedGoogleApiKey := Some (Some blob),
                                           set_encryptedApiKey := Some None,
                                           set_googleApiKeyValidated := Some True,
                                           set_apiKeyValidated := Some False,
                                           set_model := Some None\<rparr>
                        else storageUpdate\<lparr>set_encryptedApiKey := Some (Some blob),
                                           set_encryptedGoogleApiKey := Some None,
                                           set_apiKeyValidated := Some True,
                                           set_googleApiKeyValidated := Some False,
                                           set_googleModel := Some None\<rparr>)
                 in \<lparr>writes = [storageUpdate'], shown_error = None, rng_after = r2\<rparr>)
              else
                \<lparr>writes = [if selected = GOOGLE
                            then no_update\<lparr>set_googleApiKeyValidated := Some False\<rparr>
                            else no_update\<lparr>set_apiKeyValidated := Some False\<rparr>],
                 shown_error = Some (if selected = GOOGLE then ''errorValidatingGoogleApiKey''
                                     else ''errorValidatingApiKey''),
                 rng_after = r\<rparr>))"

definition apply_writes :: "storage_update list \<Rightarrow> settings \<Rightarrow> settings" where
  "apply_writes us s = foldl (\<lambda>s' u. storage_set u s') s us"

section \<open>Sequences of exchanges\<close>

text \<open>
  The inputs of one call that vary from call to call, and the store after a sequence of
  calls for one user and one conversation type, each of which resolved (\<open>None\<close> as soon
  as one of them did not).
\<close>

record 'k exchange =
  x_host :: "'k host"
  x_settings :: settings
  x_message :: string
  x_language :: string
  x_apiKey :: "string option"

definition exchange_call :: "'k exchange \<Rightarrow> conv_store \<Rightarrow> string \<Rightarrow> string \<Rightarrow> call_result" where
  "exchange_call x store userId type =
     callAIProviderAPI (x_host x) (x_settings x) store userId type (x_message x)
       (x_language x) (x_apiKey x)"

fun after_exchanges ::
  "conv_store \<Rightarrow> string \<Rightarrow> string \<Rightarrow> 'k exchange list \<Rightarrow> conv_store option" where
  "after_exchanges store userId type [] = Some store"
| "after_exchanges store userId type (x # xs) =
     (case outcome (exchange_call x store userId type) of
        Resolved _ \<Rightarrow>
          after_exchanges (store_after (exchange_call x store userId type)) userId type xs
      | Rejected _ \<Rightarrow> None
      | Pending \<Rightarrow> None)"

text \<open>The stored conversation of a user and type is there, has at most three messages, and
  begins with a \<open>system\<close> message.\<close>

definition bounded_window :: "conv_store \<Rightarrow> string \<Rightarrow> string \<Rightarrow> bool" where
  "bounded_window store userId type =
     (case store (conversation_key userId type) of
        None \<Rightarrow> False
      | Some c \<Rightarrow>
          length (messages c) \<le> 3
          \<and> (case messages c of [] \<Rightarrow> False | first # _ \<Rightarrow> role first = ''system''))"

text \<open>
  The settings after a sequence of validation attempts in the popup, each with the value of
  the input field, the provider selected in the form and the answer of the background
  page; the writes of each attempt are applied to the store before the next.
\<close>

record validation =
  v_input :: string
  v_selected :: string
  v_reply :: validation_reply

fun after_validations :: "'k webcrypto \<Rightarrow> settings \<Rightarrow> rng \<Rightarrow> validation list \<Rightarrow> settings" where
  "after_validations W s r [] = s"
| "after_validations W s r (v # vs) =
     after_validations W
       (apply_writes
          (writes (handleValidateApiKey W (v_input v) (v_selected v) (v_reply v) r)) s)
       (rng_after (handleValidateApiKey W (v_input v) (v_selected v) (v_reply v) r))
       vs"

section \<open>Replies that conform to a schema\<close>




section \<open>Fixtures\<close>

text \<open>
  A toy host for the closed instances below: the codec reads a character as its code, the
  derived key is the password bytes followed by the salt, the cipher writes the key length
  and the IV length in front of the reversed plaintext and refuses a ciphertext with other
  lengths in front. Messages are their keys, every request is answered with status 200
  and a reply in both providers' shapes, and \<open>JSON.parse\<close> knows two texts.
\<close>

definition demo_crypto :: "byte list webcrypto" where
  "demo_crypto =
     \<lparr>text_encode = map (\<lambda>c. of_nat (of_char c)),
      text_decode = map (\<lambda>b. char_of (unat b)),
      deriveKey = (\<lambda>h n l password s. password @ s),
      aes_gcm_encrypt = (\<lambda>k i d. of_nat (length k) # of_nat (length i) # rev d),
      aes_gcm_decrypt = (\<lambda>k i c.
         case c of
           a # b # d \<Rightarrow>
             if a = of_nat (length k) \<and> b = of_nat (length i) then Some (rev d) else None
         | _ \<Rightarrow> None)\<rparr>"

definition demo_card :: json where
  "demo_card =
     JObject [(''definition'', JString ''a greeting''), (''translation'', JString ''hello''),
              (''example_1'', JString ''Bonjour !''), (''example_2'', JString ''Bonjour, Anne.''),
              (''example_3'', JString ''Dis bonjour.'')]"

definition demo_reply :: http_response where
  "demo_reply =
     \<lparr>status = 200, statusText = ''OK'',
      json_body = JsonBody
        \<lparr>error_member = None,
         choices = Some [\<lparr>choice_message = Some \<lparr>role = ''assistant'', content = ''card''\<rparr>\<rparr>],
         candidates = Some [\<lparr>cand_content = Some \<lparr>parts = Some [''card'']\<rparr>\<rparr>]\<rparr>\<rparr>"

definition demo_host :: "byte list host" where
  "demo_host =
     \<lparr>crypto = demo_crypto,
      getMessage = (\<lambda>key args. key),
      fetch = (\<lambda>request. FetchResponds demo_reply),
      JSON_parse = (\<lambda>s. if s = ''card'' then Inr demo_card
                          else if s = ''null'' then Inr JNull
                          else Inl ''Unexpected token''),
      DEFAULT_REMOTE_MODEL = ''gpt-4o-mini''\<rparr>"

definition free_settings :: settings where
  "free_settings =
     \<lparr>isOwnCredits = False, selectedProvider = None, encryptedApiKey = None,
      encryptedGoogleApiKey = None, installationPassword = None, apiKeyValidated = False,
      googleApiKeyValidated = False, learningGoal = None, model = None, googleModel = None\<rparr>"

definition demo_exchange :: "string option \<Rightarrow> string \<Rightarrow> byte list exchange" where
  "demo_exchange prov text =
     \<lparr>x_host = demo_host, x_settings = free_settings\<lparr>selectedProvider := prov\<rparr>,
      x_message = text, x_language = ''english_us'', x_apiKey = None\<rparr>"

text \<open>A host whose provider answers 503 with a payload that names a missing model.\<close>

definition outage_reply :: http_response where
  "outage_reply =
     \<lparr>status = 503, statusText = ''Service Unavailable'',
      json_body = JsonBody
        \<lparr>error_member = Some \<lparr>err_type = Some ''invalid_request_error'',
                               err_message = Some ''The model gpt-999 does not exist''\<rparr>,
         choices = None, candidates = None\<rparr>\<rparr>"

definition outage_host :: "byte list host" where
  "outage_host = demo_host\<lparr>fetch := (\<lambda>request. FetchResponds outage_reply)\<rparr>"








text \<open>A store that holds a validated OpenAI key and a selected OpenAI model.\<close>

definition openai_settings :: settings where
  "openai_settings =
     free_settings\<lparr>isOwnCredits := True, apiKeyValidated := True,
       encryptedApiKey := Some \<lparr>salt = [1], iv = [2], encrypted = [3]\<rparr>,
       installationPassword := Some ''00ff'', model := Some ''gpt-4o''\<rparr>"

section \<open>Result cache: expiry\<close>

text \<open>
  C6. For every entry of the translation cache, a read 23 hours 59 minutes after the
  entry's timestamp returns the stored translation, a read 24 hours 1 minute after it is a
  miss, and every read made when more than 24 hours have passed since the timestamp is a
  miss: the stale entry is never returned.
\<close>

theorem cache_expiry:
  "store (createTranslationCacheKey text language) = Some e \<Longrightarrow>
     getCachedTranslation (timestamp e + (23 * 60 + 59) * 60 * 1000) store text language
       = Some (translation e)
     \<and> getCachedTranslation (timestamp e + (24 * 60 + 1) * 60 * 1000) store text language
       = None
     \<and> (\<forall>now. now - timestamp e > 24 * 60 * 60 * 1000 \<longrightarrow>
           getCachedTranslation now store text language = None)"
  by (simp add: getCachedTranslation_def isTranslationExpired_def TWENTY_FOUR_HOURS_def)

theorem cache_expiry_witness:
  "getCachedTranslation (1700000000000 + (23 * 60 + 59) * 60 * 1000)
      (setCachedTranslation 1700000000000 Map.empty ''bonjour'' ''english_us'' ''hello'')
      ''bonjour'' ''english_us'' = Some ''hello''
   \<and> getCachedTranslation (1700000000000 + (24 * 60 + 1) * 60 * 1000)
      (setCachedTranslation 1700000000000 Map.empty ''bonjour'' ''english_us'' ''hello'')
      ''bonjour'' ''english_us'' = None
   \<and> getCachedTranslation 1700086400001
      (setCachedTranslation 1700000000000 Map.empty ''bonjour'' ''english_us'' ''hello'')
      ''bonjour'' ''english_us'' = None"
  using cache_expiry
    [of "setCachedTranslation 1700000000000 Map.empty ''bonjour'' ''english_us'' ''hello''"
      "''bonjour''" "''english_us''"
      "\<lparr>translation = ''hello'', timestamp = 1700000000000, sourceText = ''bonjour'',
        targetLanguage = ''english_us''\<rparr>"]
  by (simp add: setCachedTranslation_def)
section \<open>Conversation store: the window\<close>

lemma slice_last2_append2: "slice_last2 (xs @ [a, b]) = [a, b]"
  by (simp add: slice_last2_def)

lemma getOrCreateConversation_system:
  "getOrCreateConversation E store userId type goal = (conv, store1) \<Longrightarrow>
     \<exists>rest. messages conv = system_message (getSystemPrompt E type goal) # rest"
  by (auto simp: getOrCreateConversation_def Let_def assign_first_def system_message_def
      split: option.splits list.splits)

lemma openai_messages_shape:
  "\<exists>first mid. openai_messages msgs sp um = first # mid @ [\<lparr>role = ''user'', content = um\<rparr>]
      \<and> role first = ''system''"
  by (cases msgs) (auto simp: openai_messages_def system_message_def)

lemma window_openai:
  "role first = ''system'' \<Longrightarrow>
     window ((first # mid @ [u]) @ [a]) = [first, u, a]"
  using slice_last2_append2 [of "first # mid" u a] by (simp add: window_def)

lemma google_window_system:
  "role first = ''system'' \<Longrightarrow> google_window ((first # rest) @ [u, a]) = [first, u, a]"
  using slice_last2_append2 [of "first # rest" u a] by (simp add: google_window_def)

lemma openai_branch_returned:
  assumes "completed (openai_branch E result store userId type um lang goal k conv sp)
             = Returned v"
  shows "bounded_window
           (stored (openai_branch E result store userId type um lang goal k conv sp))
           userId type"
proof -
  obtain first mid
    where sh: "openai_messages (messages conv) sp um
                 = first # mid @ [\<lparr>role = ''user'', content = um\<rparr>]"
      and r: "role first = ''system''"
    using openai_messages_shape by blast
  show ?thesis
    using assms r window_openai [OF r, of mid "\<lparr>role = ''user'', content = um\<rparr>"]
    by (auto simp: openai_branch_def Let_def sh bounded_window_def
        split: fetch_result.splits if_splits response_body.splits option.splits
          list.splits sum.splits)
qed

lemma google_branch_returned:
  assumes "completed (google_branch E result store userId type um lang goal k conv sp)
             = Returned v"
    and "messages conv = first # rest" and "role first = ''system''"
  shows "bounded_window
           (stored (google_branch E result store userId type um lang goal k conv sp))
           userId type"
  using assms(1) assms(3) google_window_system [OF assms(3), of rest]
  by (auto simp: google_branch_def Let_def bounded_window_def assms(2)
      split: fetch_result.splits if_splits response_body.splits option.splits
        list.splits sum.splits)

lemma try_block_returned:
  assumes "completed (try_block E result store userId type um lang k) = Returned v"
  shows "bounded_window (stored (try_block E result store userId type um lang k)) userId type"
proof -
  let ?goal = "learning_goal result"
  obtain conv store1
    where g: "getOrCreateConversation E store userId type ?goal = (conv, store1)"
    by (cases "getOrCreateConversation E store userId type ?goal")
  obtain rest where m: "messages conv = system_message (getSystemPrompt E type ?goal) # rest"
    using getOrCreateConversation_system [OF g] by blast
  have r: "role (system_message (getSystemPrompt E type ?goal)) = ''system''"
    by (simp add: system_message_def)
  show ?thesis
    using assms openai_branch_returned google_branch_returned [OF _ m r]
    by (auto simp: try_block_def Let_def g split: if_splits)
qed

lemma call_resolved_window:
  assumes "outcome (callAIProviderAPI E result store userId type um lang apiKey) = Resolved v"
  shows "bounded_window
           (store_after (callAIProviderAPI E result store userId type um lang apiKey))
           userId type"
  using assms try_block_returned
  by (auto simp: callAIProviderAPI_def Let_def settle_def split: sum.splits completion.splits)

lemma after_exchanges_window:
  "xs \<noteq> [] \<Longrightarrow> after_exchanges store userId type xs = Some store' \<Longrightarrow>
     bounded_window store' userId type"
proof (induction xs arbitrary: store)
  case Nil
  then show ?case by simp
next
  case (Cons x xs)
  from Cons.prems(2) obtain v
    where res: "outcome (exchange_call x store userId type) = Resolved v"
      and rest: "after_exchanges (store_after (exchange_call x store userId type)) userId type xs
                   = Some store'"
    by (auto split: promise.splits)
  show ?case
  proof (cases xs)
    case Nil
    with rest res show ?thesis
      using call_resolved_window
        [of "x_host x" "x_settings x" store userId type "x_message x" "x_language x"
          "x_apiKey x" v]
      by (simp add: exchange_call_def)
  next
    case (Cons y ys)
    then show ?thesis using Cons.IH rest by simp
  qed
qed

text \<open>
  C2. Take any stored state and any sequence of one or more calls for one user and one
  conversation type, each through the OpenAI or the Google branch (as the settings of the
  call select) and each resolving. The conversation stored after the sequence has at most
  three messages, and its first message has the role \<open>system\<close>. The sequence may stop
  after any exchange, so this holds after each of them.
\<close>

theorem conversation_window:
  "xs \<noteq> [] \<Longrightarrow> after_exchanges store userId type xs = Some store' \<Longrightarrow>
     \<exists>c. store' (conversation_key userId type) = Some c
       \<and> length (messages c) \<le> 3
       \<and> messages c \<noteq> []
       \<and> role (hd (messages c)) = ''system''"
  using after_exchanges_window [of xs store userId type store']
  by (auto simp: bounded_window_def split: option.splits list.splits)

lemma demo_exchanges_resolve:
  "after_exchanges Map.empty ''u1'' ''flashcard''
     [demo_exchange None ''Bonjour'', demo_exchange (Some ''google'') ''Merci'',
      demo_exchange (Some ''openai'') ''Salut''] \<noteq> None"
  by (simp add: exchange_call_def demo_exchange_def callAIProviderAPI_def admit_def
      try_block_def settle_def selected_provider_def learning_goal_def free_settings_def
      or_else_def OPENAI_def GOOGLE_def resolve_credential_def truthy_def CONVERSATION_TYPES_def
      getOrCreateConversation_def conversation_key_def openai_branch_def google_branch_def
      demo_host_def demo_reply_def ok_def google_reply_text_def Let_def)

theorem conversation_window_witness:
  "[demo_exchange None ''Bonjour'', demo_exchange (Some ''google'') ''Merci'',
    demo_exchange (Some ''openai'') ''Salut''] \<noteq> []
   \<and> (\<exists>store' c.
        after_exchanges Map.empty ''u1'' ''flashcard''
          [demo_exchange None ''Bonjour'', demo_exchange (Some ''google'') ''Merci'',
           demo_exchange (Some ''openai'') ''Salut''] = Some store'
        \<and> store' (conversation_key ''u1'' ''flashcard'') = Some c
        \<and> length (messages c) \<le> 3
        \<and> messages c \<noteq> []
        \<and> role (hd (messages c)) = ''system'')"
proof -
  obtain store'
    where s: "after_exchanges Map.empty ''u1'' ''flashcard''
                [demo_exchange None ''Bonjour'', demo_exchange (Some ''google'') ''Merci'',
                 demo_exchange (Some ''openai'') ''Salut''] = Some store'"
    using demo_exchanges_resolve by blast
  show ?thesis
    using conversation_window [OF _ s] s by simp
qed
section \<open>Error classification: network failures\<close>

lemma openai_branch_sent:
  "sent (openai_branch E result store userId type um lang goal k conv sp)
     = [openai_http_request E result userId type um lang goal k
          (openai_messages (messages conv) sp um)]"
  by (simp add: openai_branch_def Let_def
      split: fetch_result.splits response_body.splits option.splits list.splits sum.splits)

lemma google_branch_sent:
  "sent (google_branch E result store userId type um lang goal k conv sp)
     = [google_http_request result type um lang goal k sp]"
  by (simp add: google_branch_def Let_def
      split: fetch_result.splits response_body.splits option.splits list.splits sum.splits)

lemma openai_branch_rejects:
  "fetch E (openai_http_request E result userId type um lang goal k
              (openai_messages (messages conv) sp um)) = FetchRejects m \<Longrightarrow>
     completed (openai_branch E result store userId type um lang goal k conv sp)
       = Threw (new_Error m)"
  by (simp add: openai_branch_def Let_def)

lemma openai_branch_not_ok:
  "fetch E (openai_http_request E result userId type um lang goal k
              (openai_messages (messages conv) sp um)) = FetchResponds response \<Longrightarrow>
     \<not> ok response \<Longrightarrow>
     completed (openai_branch E result store userId type um lang goal k conv sp)
       = Threw (http_error ''HTTP error! status: '' response)"
  by (simp add: openai_branch_def Let_def)

lemma google_branch_rejects:
  "fetch E (google_http_request result type um lang goal k sp) = FetchRejects m \<Longrightarrow>
     completed (google_branch E result store userId type um lang goal k conv sp)
       = Threw (new_Error m)"
  by (simp add: google_branch_def Let_def)

lemma google_branch_not_ok:
  "fetch E (google_http_request result type um lang goal k sp) = FetchResponds response \<Longrightarrow>
     \<not> ok response \<Longrightarrow>
     completed (google_branch E result store userId type um lang goal k conv sp)
       = Threw (http_error ''Google API HTTP error! status: '' response)"
  by (simp add: google_branch_def Let_def)

lemma branch_rejects:
  assumes "a = openai_branch E result store userId type um lang goal k conv sp
           \<or> a = google_branch E result store userId type um lang goal k conv sp"
    and "sent a = [request]" and "fetch E request = FetchRejects m"
  shows "completed a = Threw (new_Error m)"
  using assms(1)
proof
  assume a: "a = openai_branch E result store userId type um lang goal k conv sp"
  with assms(2,3) show ?thesis
    by (simp add: openai_branch_sent openai_branch_rejects)
next
  assume a: "a = google_branch E result store userId type um lang goal k conv sp"
  with assms(2,3) show ?thesis
    by (simp add: google_branch_sent google_branch_rejects)
qed

lemma branch_not_ok:
  assumes "a = openai_branch E result store userId type um lang goal k conv sp
           \<or> a = google_branch E result store userId type um lang goal k conv sp"
    and "sent a = [request]" and "fetch E request = FetchResponds response"
    and "\<not> ok response"
  shows "\<exists>intro. completed a = Threw (http_error intro response)"
  using assms(1)
proof
  assume a: "a = openai_branch E result store userId type um lang goal k conv sp"
  with assms(2,3,4) show ?thesis
    by (auto simp: openai_branch_sent openai_branch_not_ok)
next
  assume a: "a = google_branch E result store userId type um lang goal k conv sp"
  with assms(2,3,4) show ?thesis
    by (auto simp: google_branch_sent google_branch_not_ok)
qed

lemma http_error_network:
  "isNetworkError (error_text response) (status response) \<Longrightarrow>
     isUnsupportedModel (http_error intro response) = Some False"
  by (simp add: http_error_def Let_def)

lemma isNetworkError_5xx: "500 \<le> st \<Longrightarrow> st < 600 \<Longrightarrow> isNetworkError m st"
  by (simp add: isNetworkError_def)

lemma not_ok_5xx: "500 \<le> status response \<Longrightarrow> \<not> ok response"
  by (simp add: ok_def)

text \<open>
  A call that hands a request to \<open>fetch\<close> has passed the checks, and its outcome is that
  of the branch of the selected provider.
\<close>

lemma try_block_branch:
  assumes "sent (try_block E result store userId type um lang k) = [request]"
  shows "\<exists>store1 conv sp a.
           (a = openai_branch E result store1 userId type um lang (learning_goal result) k
                  conv sp
            \<or> a = google_branch E result store1 userId type um lang (learning_goal result) k
                   conv sp)
           \<and> try_block E result store userId type um lang k = a"
  using assms
  by (cases "getOrCreateConversation E store userId type (learning_goal result)")
    (auto simp: try_block_def Let_def split: if_splits)

lemma call_with_request:
  assumes "requests (callAIProviderAPI E result store userId type um lang apiKey) = [request]"
  shows "\<exists>goal k conv store1 sp a.
           (a = openai_branch E result store1 userId type um lang goal k conv sp
            \<or> a = google_branch E result store1 userId type um lang goal k conv sp)
           \<and> sent a = [request]
           \<and> outcome (callAIProviderAPI E result store userId type um lang apiKey)
               = settle (selected_provider result) (completed a)"
proof -
  from assms obtain k
    where k: "admit E result type apiKey = Inr k"
      and s: "sent (try_block E result store userId type um lang k) = [request]"
    by (auto simp: callAIProviderAPI_def Let_def split: sum.splits)
  from try_block_branch [OF s] obtain store1 conv sp a
    where a: "a = openai_branch E result store1 userId type um lang (learning_goal result) k
                    conv sp
              \<or> a = google_branch E result store1 userId type um lang (learning_goal result) k
                     conv sp"
      and t: "try_block E result store userId type um lang k = a"
    by blast
  have out: "outcome (callAIProviderAPI E result store userId type um lang apiKey)
          = settle (selected_provider result) (completed a)"
    using k t by (simp add: callAIProviderAPI_def Let_def)
  show ?thesis
  proof (intro exI conjI)
    show "a = openai_branch E result store1 userId type um lang (learning_goal result) k
                conv sp
          \<or> a = google_branch E result store1 userId type um lang (learning_goal result) k
                 conv sp"
      by (rule a)
    show "sent a = [request]" using s t by simp
    show "outcome (callAIProviderAPI E result store userId type um lang apiKey)
            = settle (selected_provider result) (completed a)"
      by (rule out)
  qed
qed

text \<open>
  C3. Take a call that reaches the provider. When the transport fails (\<open>fetch\<close> rejects),
  when the response is not ok and its error text carries a network signature, and when the
  status is between 500 and 599, the caller receives a failure that is not flagged as an
  unsupported model, whatever the payload says about models.
\<close>

theorem network_failure_not_unsupported_model:
  assumes "requests (callAIProviderAPI E result store userId type um lang apiKey) = [request]"
    and "(\<exists>m. fetch E request = FetchRejects m)
         \<or> (\<exists>response. fetch E request = FetchResponds response \<and> \<not> ok response
               \<and> isNetworkError (error_text response) (status response))
         \<or> (\<exists>response. fetch E request = FetchResponds response
               \<and> 500 \<le> status response \<and> status response < 600)"
  shows "\<exists>r. on_callChatGPTAPI E result store userId type um lang apiKey = Some r
           \<and> \<not> success r \<and> resp_isUnsupportedModel r = None"
proof -
  let ?prov = "selected_provider result"
  obtain goal k conv store1 sp a
    where a: "a = openai_branch E result store1 userId type um lang goal k conv sp
              \<or> a = google_branch E result store1 userId type um lang goal k conv sp"
      and s: "sent a = [request]"
      and out: "outcome (callAIProviderAPI E result store userId type um lang apiKey)
                  = settle ?prov (completed a)"
    using call_with_request [OF assms(1)] by blast
  from assms(2) have "\<exists>e. completed a = Threw e \<and> isUnsupportedModel e \<noteq> Some True"
  proof (elim disjE exE conjE)
    fix m assume "fetch E request = FetchRejects m"
    then have "completed a = Threw (new_Error m)"
      using a s by (rule branch_rejects [rotated 2])
    then show ?thesis by (simp add: new_Error_def)
  next
    fix response
    assume f: "fetch E request = FetchResponds response" and n: "\<not> ok response"
      and net: "isNetworkError (error_text response) (status response)"
    from branch_not_ok [OF a s f n] obtain intro
      where "completed a = Threw (http_error intro response)" by blast
    then show ?thesis using http_error_network [OF net, of intro] by simp
  next
    fix response
    assume f: "fetch E request = FetchResponds response"
      and lo: "500 \<le> status response" and hi: "status response < 600"
    have n: "\<not> ok response" using lo by (rule not_ok_5xx)
    have net: "isNetworkError (error_text response) (status response)"
      using lo hi by (rule isNetworkError_5xx)
    from branch_not_ok [OF a s f n] obtain intro
      where "completed a = Threw (http_error intro response)" by blast
    then show ?thesis using http_error_network [OF net, of intro] by simp
  qed
  then obtain e where e: "completed a = Threw e" and u: "isUnsupportedModel e \<noteq> Some True"
    by blast
  show ?thesis
    using out e u
    by (simp add: on_callChatGPTAPI_def failure_response_def enhancedError_def settle_def)
qed

lemma outage_request:
  "\<exists>request. requests (callAIProviderAPI outage_host free_settings Map.empty ''u1''
                 ''flashcard'' ''Bonjour'' ''english_us'' None) = [request]"
  by (simp add: callAIProviderAPI_def admit_def try_block_def selected_provider_def
      learning_goal_def free_settings_def or_else_def OPENAI_def GOOGLE_def
      resolve_credential_def truthy_def CONVERSATION_TYPES_def
      getOrCreateConversation_def conversation_key_def openai_branch_sent Let_def)

lemma outage_unsupported:
  "isUnsupportedModelError (error_payload outage_reply) (status outage_reply)"
  by code_simp

theorem network_failure_not_unsupported_model_witness:
  "isUnsupportedModelError (error_payload outage_reply) (status outage_reply)
   \<and> 500 \<le> status outage_reply \<and> status outage_reply < 600
   \<and> (\<exists>r. on_callChatGPTAPI outage_host free_settings Map.empty ''u1'' ''flashcard''
             ''Bonjour'' ''english_us'' None = Some r
          \<and> \<not> success r \<and> resp_isUnsupportedModel r = None)"
proof -
  obtain request
    where r: "requests (callAIProviderAPI outage_host free_settings Map.empty ''u1''
                 ''flashcard'' ''Bonjour'' ''english_us'' None) = [request]"
    using outage_request by blast
  have f: "fetch outage_host request = FetchResponds outage_reply"
    by (simp add: outage_host_def)
  have s: "500 \<le> status outage_reply \<and> status outage_reply < 600"
    by (simp add: outage_reply_def)
  have "\<exists>response. fetch outage_host request = FetchResponds response
          \<and> 500 \<le> status response \<and> status response < 600"
    using f s by (intro exI [of _ outage_reply]) simp
  then have "\<exists>r. on_callChatGPTAPI outage_host free_settings Map.empty ''u1'' ''flashcard''
               ''Bonjour'' ''english_us'' None = Some r
             \<and> \<not> success r \<and> resp_isUnsupportedModel r = None"
    by (rule network_failure_not_unsupported_model [OF r disjI2 [OF disjI2]])
  then show ?thesis
    using s outage_unsupported by (intro conjI) simp_all
qed
section \<open>Gateway: order of the checks\<close>









section \<open>Gateway: what the caller receives\<close>








section \<open>Credential vault: round trip\<close>







text \<open>
  Every call of \<open>encryptApiKey\<close> draws its salt and its IV: the next 16 bytes of the random
  source and the 12 bytes after them, 28 bytes that no later draw sees again.
\<close>

lemma encryptApiKey_draws:
  "salt (fst (encryptApiKey W S P r)) = Array_from (map r [0..<16])
   \<and> iv (fst (encryptApiKey W S P r)) = Array_from (map (\<lambda>i. r (i + 16)) [0..<12])
   \<and> length (salt (fst (encryptApiKey W S P r))) = 16
   \<and> length (iv (fst (encryptApiKey W S P r))) = 12
   \<and> snd (encryptApiKey W S P r) = (\<lambda>i. r (i + 28))"
  by (simp add: encryptApiKey_def getRandomValues_def Let_def Array_from_def add.assoc)
section \<open>Storing a validated key\<close>

lemma handleValidateApiKey_valid:
  assumes "trim input_value \<noteq> []"
  shows "writes (handleValidateApiKey W input_value selected (Reply True) r) =
     [(if selected = GOOGLE
       then no_update
         \<lparr>set_isOwnCredits := Some True,
          set_installationPassword := Some (fst (generateInstallationPassword r)),
          set_encryptedGoogleApiKey :=
            Some (Some (fst (encryptApiKey W (trim input_value)
                               (fst (generateInstallationPassword r))
                               (snd (generateInstallationPassword r))))),
          set_encryptedApiKey := Some None,
          set_googleApiKeyValidated := Some True,
          set_apiKeyValidated := Some False,
          set_model := Some None\<rparr>
       else no_update
         \<lparr>set_isOwnCredits := Some True,
          set_installationPassword := Some (fst (generateInstallationPassword r)),
          set_encryptedApiKey :=
            Some (Some (fst (encryptApiKey W (trim input_value)
                               (fst (generateInstallationPassword r))
                               (snd (generateInstallationPassword r))))),
          set_encryptedGoogleApiKey := Some None,
          set_apiKeyValidated := Some True,
          set_googleApiKeyValidated := Some False,
          set_googleModel := Some None\<rparr>)]"
  using assms
  by (simp add: handleValidateApiKey_def Let_def split: prod.splits)

lemma handleValidateApiKey_keeps_one:
  assumes "encryptedApiKey s = None \<or> encryptedGoogleApiKey s = None"
  shows "encryptedApiKey
           (apply_writes (writes (handleValidateApiKey W input_value selected reply r)) s) = None
         \<or> encryptedGoogleApiKey
             (apply_writes (writes (handleValidateApiKey W input_value selected reply r)) s)
             = None"
proof (cases "trim input_value = []")
  case True
  then show ?thesis
    using assms by (simp add: handleValidateApiKey_def apply_writes_def)
next
  case False
  show ?thesis
  proof (cases reply)
    case LastError
    then show ?thesis
      using assms False by (simp add: handleValidateApiKey_def apply_writes_def)
  next
    case (Reply valid)
    show ?thesis
    proof (cases valid)
      case True
      then show ?thesis
        using Reply handleValidateApiKey_valid [OF False, of W selected r]
        by (simp add: apply_writes_def storage_set_def no_update_def)
    next
      case False
      then show ?thesis
        using Reply assms \<open>trim input_value \<noteq> []\<close>
        by (simp add: handleValidateApiKey_def apply_writes_def storage_set_def no_update_def)
    qed
  qed
qed

lemma after_validations_keep_one:
  "encryptedApiKey s = None \<or> encryptedGoogleApiKey s = None \<Longrightarrow>
     encryptedApiKey (after_validations W s r vs) = None
     \<or> encryptedGoogleApiKey (after_validations W s r vs) = None"
proof (induction vs arbitrary: s r)
  case Nil
  then show ?case by simp
next
  case (Cons v vs)
  show ?case
    using Cons.IH [OF handleValidateApiKey_keeps_one [OF Cons.prems]] by simp
qed

text \<open>
  C10. When the key in the input field is not blank and the background page answers that
  it is valid, \<open>handleValidateApiKey\<close> makes one call of \<open>chrome.storage.sync.set\<close>. Its
  object holds the new installation password, the blob that encrypts the key under this
  password for the selected provider, \<open>null\<close> for the other provider's blob, \<open>false\<close> for
  the other provider's validated flag and \<open>null\<close> for the other provider's model. After
  the write the store has these values. Starting from a store with at most one encrypted
  key, every sequence of validation attempts, valid or not, leaves at most one.
\<close>

theorem validated_key_clears_other:
  "(trim input_value \<noteq> [] \<longrightarrow>
     (\<exists>u password blob.
        writes (handleValidateApiKey W input_value selected (Reply True) r) = [u]
        \<and> password = fst (generateInstallationPassword r)
        \<and> blob = fst (encryptApiKey W (trim input_value) password
                        (snd (generateInstallationPassword r)))
        \<and> set_installationPassword u = Some password
        \<and> (if selected = GOOGLE
            then set_encryptedGoogleApiKey u = Some (Some blob)
                 \<and> set_encryptedApiKey u = Some None
                 \<and> set_apiKeyValidated u = Some False
                 \<and> set_model u = Some None
            else set_encryptedApiKey u = Some (Some blob)
                 \<and> set_encryptedGoogleApiKey u = Some None
                 \<and> set_googleApiKeyValidated u = Some False
                 \<and> set_googleModel u = Some None)
        \<and> installationPassword (storage_set u s) = Some password
        \<and> (if selected = GOOGLE
            then encryptedGoogleApiKey (storage_set u s) = Some blob
                 \<and> googleApiKeyValidated (storage_set u s)
                 \<and> encryptedApiKey (storage_set u s) = None
                 \<and> \<not> apiKeyValidated (storage_set u s)
                 \<and> model (storage_set u s) = None
            else encryptedApiKey (storage_set u s) = Some blob
                 \<and> apiKeyValidated (storage_set u s)
                 \<and> encryptedGoogleApiKey (storage_set u s) = None
                 \<and> \<not> googleApiKeyValidated (storage_set u s)
                 \<and> googleModel (storage_set u s) = None)))
   \<and> (encryptedApiKey start = None \<or> encryptedGoogleApiKey start = None \<longrightarrow>
        encryptedApiKey (after_validations W start source vs) = None
        \<or> encryptedGoogleApiKey (after_validations W start source vs) = None)"
proof (intro conjI impI)
  assume ne: "trim input_value \<noteq> []"
  show "\<exists>u password blob.
        writes (handleValidateApiKey W input_value selected (Reply True) r) = [u]
        \<and> password = fst (generateInstallationPassword r)
        \<and> blob = fst (encryptApiKey W (trim input_value) password
                        (snd (generateInstallationPassword r)))
        \<and> set_installationPassword u = Some password
        \<and> (if selected = GOOGLE
            then set_encryptedGoogleApiKey u = Some (Some blob)
                 \<and> set_encryptedApiKey u = Some None
                 \<and> set_apiKeyValidated u = Some False
                 \<and> set_model u = Some None
            else set_encryptedApiKey u = Some (Some blob)
                 \<and> set_encryptedGoogleApiKey u = Some None
                 \<and> set_googleApiKeyValidated u = Some False
                 \<and> set_googleModel u = Some None)
        \<and> installationPassword (storage_set u s) = Some password
        \<and> (if selected = GOOGLE
            then encryptedGoogleApiKey (storage_set u s) = Some blob
                 \<and> googleApiKeyValidated (storage_set u s)
                 \<and> encryptedApiKey (storage_set u s) = None
                 \<and> \<not> apiKeyValidated (storage_set u s)
                 \<and> model (storage_set u s) = None
            else encryptedApiKey (storage_set u s) = Some blob
                 \<and> apiKeyValidated (storage_set u s)
                 \<and> encryptedGoogleApiKey (storage_set u s) = None
                 \<and> \<not> googleApiKeyValidated (storage_set u s)
                 \<and> googleModel (storage_set u s) = None)"
    by (simp add: handleValidateApiKey_valid [OF ne] storage_set_def no_update_def)
next
  assume "encryptedApiKey start = None \<or> encryptedGoogleApiKey start = None"
  then show "encryptedApiKey (after_validations W start source vs) = None
        \<or> encryptedGoogleApiKey (after_validations W start source vs) = None"
    by (rule after_validations_keep_one)
qed

lemma demo_input_not_blank: "trim ''  sk-test-42 '' \<noteq> []"
  by code_simp

theorem validated_key_clears_other_witness:
  "trim ''  sk-test-42 '' \<noteq> []
   \<and> encryptedApiKey openai_settings \<noteq> None
   \<and> (\<exists>u. writes (handleValidateApiKey demo_crypto ''  sk-test-42 '' ''google'' (Reply True)
                 (\<lambda>i. of_nat (7 * i))) = [u]
          \<and> set_installationPassword u \<noteq> None
          \<and> encryptedGoogleApiKey (storage_set u openai_settings) \<noteq> None
          \<and> encryptedApiKey (storage_set u openai_settings) = None
          \<and> \<not> apiKeyValidated (storage_set u openai_settings)
          \<and> model (storage_set u openai_settings) = None)
   \<and> (encryptedApiKey free_settings = None \<or> encryptedGoogleApiKey free_settings = None)
   \<and> (encryptedApiKey
         (after_validations demo_crypto free_settings (\<lambda>i. of_nat (7 * i))
            [\<lparr>v_input = ''sk-a'', v_selected = ''openai'', v_reply = Reply True\<rparr>,
             \<lparr>v_input = ''AIza'', v_selected = ''google'', v_reply = Reply True\<rparr>,
             \<lparr>v_input = ''sk-b'', v_selected = ''openai'', v_reply = Reply False\<rparr>]) = None
       \<or> encryptedGoogleApiKey
           (after_validations demo_crypto free_settings (\<lambda>i. of_nat (7 * i))
              [\<lparr>v_input = ''sk-a'', v_selected = ''openai'', v_reply = Reply True\<rparr>,
               \<lparr>v_input = ''AIza'', v_selected = ''google'', v_reply = Reply True\<rparr>,
               \<lparr>v_input = ''sk-b'', v_selected = ''openai'', v_reply = Reply False\<rparr>]) = None)"
proof -
  let ?vs = "[\<lparr>v_input = ''sk-a'', v_selected = ''openai'', v_reply = Reply True\<rparr>,
             \<lparr>v_input = ''AIza'', v_selected = ''google'', v_reply = Reply True\<rparr>,
             \<lparr>v_input = ''sk-b'', v_selected = ''openai'', v_reply = Reply False\<rparr>]"
  have g: "''google'' = GOOGLE" by (simp add: GOOGLE_def)
  have f: "encryptedApiKey free_settings = None" by (simp add: free_settings_def)
  have o: "encryptedApiKey openai_settings \<noteq> None" by (simp add: openai_settings_def)
  note inst = validated_key_clears_other
      [where input_value = "''  sk-test-42 ''" and W = demo_crypto and selected = GOOGLE
         and r = "\<lambda>i. of_nat (7 * i)" and s = openai_settings and start = free_settings
         and source = "\<lambda>i. of_nat (7 * i)" and vs = ?vs]
  from inst [THEN conjunct1, rule_format, OF demo_input_not_blank]
  obtain u
    where u: "writes (handleValidateApiKey demo_crypto ''  sk-test-42 '' GOOGLE (Reply True)
                 (\<lambda>i. of_nat (7 * i))) = [u]"
      and p: "set_installationPassword u \<noteq> None"
      and k: "encryptedGoogleApiKey (storage_set u openai_settings) \<noteq> None"
             "encryptedApiKey (storage_set u openai_settings) = None"
             "\<not> apiKeyValidated (storage_set u openai_settings)"
             "model (storage_set u openai_settings) = None"
    by auto
  have second: "encryptedApiKey
         (after_validations demo_crypto free_settings (\<lambda>i. of_nat (7 * i)) ?vs) = None
       \<or> encryptedGoogleApiKey
           (after_validations demo_crypto free_settings (\<lambda>i. of_nat (7 * i)) ?vs) = None"
    using inst [THEN conjunct2, rule_format, OF disjI1 [OF f]] .
  have first: "\<exists>u. writes (handleValidateApiKey demo_crypto ''  sk-test-42 '' ''google''
                 (Reply True) (\<lambda>i. of_nat (7 * i))) = [u]
          \<and> set_installationPassword u \<noteq> None
          \<and> encryptedGoogleApiKey (storage_set u openai_settings) \<noteq> None
          \<and> encryptedApiKey (storage_set u openai_settings) = None
          \<and> \<not> apiKeyValidated (storage_set u openai_settings)
          \<and> model (storage_set u openai_settings) = None"
    using u p k unfolding g by (intro exI [of _ u]) simp
  show ?thesis
    using demo_input_not_blank o first second f by simp
qed
section \<open>Flashcard replies\<close>











section \<open>Messages for failures: status codes\<close>












end
